theory Spec2Isabelle
  imports Main "HOL-Library.Sublist"
begin

section \<open>Strings of the host language\<close>

text \<open>
  A string is a list of code units; the model covers code units below 256, so a
  \<^typ>\<open>char\<close> is one code unit. The helpers below are the String.prototype
  methods that firefox/background.js calls.
\<close>

text \<open>\<^verbatim>\<open>s.split(sep)\<close> for a one-character separator: never the empty list,
  \<^verbatim>\<open>''.split('.')\<close> is \<^verbatim>\<open>['']\<close>.\<close>

fun split :: "char \<Rightarrow> string \<Rightarrow> string list" where
  "split sep [] = [[]]"
| "split sep (c # cs) =
     (if c = sep then [] # split sep cs
      else (case split sep cs of
              [] \<Rightarrow> [[c]]
            | part # parts \<Rightarrow> (c # part) # parts))"

text \<open>\<^verbatim>\<open>parts.join(sep)\<close>, the inverse of \<open>split\<close>; it is used in the proofs only.\<close>

fun joinWith :: "char \<Rightarrow> string list \<Rightarrow> string" where
  "joinWith sep [] = []"
| "joinWith sep [p] = p"
| "joinWith sep (p # q # ps) = p @ sep # joinWith sep (q # ps)"

text \<open>The white space that the regular expression class \<^verbatim>\<open>\s\<close> accepts, among the
  code units below 256: tab, line feed, vertical tab, form feed, carriage return, space
  and the no-break space.\<close>

definition isWhiteSpace :: "char \<Rightarrow> bool" where
  "isWhiteSpace c \<longleftrightarrow>
     c = CHR 0x09 \<or> c = CHR 0x0A \<or> c = CHR 0x0B \<or> c = CHR 0x0C \<or> c = CHR 0x0D \<or>
     c = CHR '' '' \<or> c = CHR 0xA0"

text \<open>\<^verbatim>\<open>s.split(/\s+/)\<close>: the pieces between maximal runs of white space. A leading
  or trailing run leaves an empty piece, as in the host language; \<open>cur\<close> holds the
  piece being read, reversed.\<close>

function splitWhiteSpace :: "string \<Rightarrow> string \<Rightarrow> string list" where
  "splitWhiteSpace cur [] = [rev cur]"
| "splitWhiteSpace cur (c # cs) =
     (if isWhiteSpace c then rev cur # splitWhiteSpace [] (dropWhile isWhiteSpace cs)
      else splitWhiteSpace (c # cur) cs)"
  by pat_completeness auto
termination
  by (relation "measure (\<lambda>(cur, s). length s)")
     (auto simp: length_dropWhile_le less_Suc_eq_le)

text \<open>\<^verbatim>\<open>\d\<close> of a regular expression without the unicode flag.\<close>

definition isDigit :: "char \<Rightarrow> bool" where
  "isDigit c \<longleftrightarrow> c \<in> set ''0123456789''"

text \<open>\<^verbatim>\<open>requestedUrl.replace(':', 's:')\<close>: only the first colon is replaced.\<close>

fun replaceColon :: "string \<Rightarrow> string" where
  "replaceColon [] = []"
| "replaceColon (c # cs) =
     (if c = CHR '':'' then CHR ''s'' # CHR '':'' # cs else c # replaceColon cs)"

section \<open>The URL objects of the platform\<close>

text \<open>
  \<^verbatim>\<open>new URL(s)\<close> is the platform's parser, not code of the extension. The functions
  of background.js take it as the parameter \<open>URL\<close>: a string is parsed to the fields
  the extension reads, or the constructor throws a TypeError (\<open>None\<close>).
\<close>

record parsedURL =
  protocol :: string
  hostname :: string
  pathname :: string
  search :: string
  hash :: string

datatype error = TypeError

text \<open>
  A reference parser for the concrete addresses of the scenarios. It reads
  \<^verbatim>\<open>http://host/path?query#fragment\<close> and the same with \<^verbatim>\<open>https\<close>, where the
  host is written in lower case without user name, and an optional port follows the
  host. On these it gives the fields the platform gives: an empty path reads as
  \<^verbatim>\<open>/\<close>, a bare \<^verbatim>\<open>?\<close> or \<^verbatim>\<open>#\<close> as the empty string, and the brackets of an
  IPv6 literal belong to the host name. Every other string is refused.
\<close>

definition parseAfterScheme :: "string \<Rightarrow> string \<Rightarrow> parsedURL option" where
  "parseAfterScheme scheme rest =
     (let authority = takeWhile (\<lambda>c. c \<notin> set ''/?#'') rest;
          after = dropWhile (\<lambda>c. c \<notin> set ''/?#'') rest;
          path = takeWhile (\<lambda>c. c \<notin> set ''?#'') after;
          after' = dropWhile (\<lambda>c. c \<notin> set ''?#'') after;
          query = takeWhile (\<lambda>c. c \<noteq> CHR ''#'') after';
          fragment = dropWhile (\<lambda>c. c \<noteq> CHR ''#'') after';
          host = (if prefix ''['' authority
                  then takeWhile (\<lambda>c. c \<noteq> CHR '']'') authority @ '']''
                  else takeWhile (\<lambda>c. c \<noteq> CHR '':'') authority)
      in if host = [] \<or> CHR ''@'' \<in> set authority then None
         else Some \<lparr>protocol = scheme, hostname = host,
                    pathname = (if path = [] then ''/'' else path),
                    search = (if query = ''?'' then [] else query),
                    hash = (if fragment = ''#'' then [] else fragment)\<rparr>)"

definition parseURL :: "string \<Rightarrow> parsedURL option" where
  "parseURL s =
     (if prefix ''http://'' s then parseAfterScheme ''http:'' (drop 7 s)
      else if prefix ''https://'' s then parseAfterScheme ''https:'' (drop 8 s)
      else None)"

section \<open>Domain suppression index\<close>

text \<open>
  \<^verbatim>\<open>prefsParsed.domains_nohttps\<close> is a Map from a label to the Map of the next label,
  read from the top-level domain inwards. The key \<^verbatim>\<open>DOMAIN_WILDCARD_LEAF_SYMBOL\<close> of
  a Map is the flag \<open>leaf\<close> of the node: a Symbol is never equal to a label.
\<close>

datatype trie = Node (leaf: bool) (children: "string \<rightharpoonup> trie")

definition newMap :: trie where
  "newMap = Node False Map.empty"

text \<open>The inner loop of \<^verbatim>\<open>doParsePrefs\<close>: walk the labels, creating the Maps that
  are missing, and set the wildcard key on the last one.\<close>

fun insertParts :: "string list \<Rightarrow> trie \<Rightarrow> trie" where
  "insertParts [] (Node l m) = Node True m"
| "insertParts (part # parts) (Node l m) =
     Node l (m(part \<mapsto> insertParts parts (case m part of None \<Rightarrow> newMap | Some sub \<Rightarrow> sub)))"

text \<open>The outer loop of \<^verbatim>\<open>doParsePrefs\<close>, over the pieces of the preference text.\<close>

fun insertDomains :: "string list \<Rightarrow> trie \<Rightarrow> trie" where
  "insertDomains [] t = t"
| "insertDomains (domain # domains) t =
     (if domain = [] then insertDomains domains t
      else insertDomains domains (insertParts (rev (split CHR ''.'' domain)) t))"

text \<open>\<^verbatim>\<open>doParsePrefs(domains_nohttps)\<close>: the index is rebuilt from the empty Map; the
  empty string is falsy and leaves it empty.\<close>

definition doParsePrefs :: "string \<Rightarrow> trie" where
  "doParsePrefs domains_nohttps =
     (if domains_nohttps \<noteq> [] then insertDomains (splitWhiteSpace [] domains_nohttps) newMap
      else newMap)"

text \<open>The lookup loop of \<^verbatim>\<open>shouldRedirectToHttps\<close> (lines 209 to 218): \<open>True\<close> when
  the loop returns false from the function because a wildcard key was reached.\<close>

fun lookupParts :: "string list \<Rightarrow> trie \<Rightarrow> bool" where
  "lookupParts [] t = False"
| "lookupParts (part # parts) (Node l m) =
     (case m part of
        None \<Rightarrow> False
      | Some sub \<Rightarrow> if leaf sub then True else lookupParts parts sub)"

definition isExcluded :: "trie \<Rightarrow> string \<Rightarrow> bool" where
  "isExcluded domains host = lookupParts (rev (split CHR ''.'' host)) domains"

section \<open>Redirect decision: the host name filter\<close>

text \<open>\<^verbatim>\<open>/^\d{1,3}\.\d{1,3}\.\d{1,3}\.\d{1,3}$/.test(hostname)\<close>: a digit is never a
  dot, so the expression accepts exactly four dot-separated groups of one to three
  digits.\<close>

definition isIPv4 :: "string \<Rightarrow> bool" where
  "isIPv4 host =
     (let groups = split CHR ''.'' host
      in length groups = 4 \<and>
         list_all (\<lambda>g. 1 \<le> length g \<and> length g \<le> 3 \<and> list_all isDigit g) groups)"

definition shouldRedirectToHttps ::
  "(string \<Rightarrow> parsedURL option) \<Rightarrow> trie \<Rightarrow> string \<Rightarrow> error + bool" where
  "shouldRedirectToHttps URL domains requestedUrl =
     (case URL requestedUrl of
        None \<Rightarrow> Inl TypeError
      | Some u \<Rightarrow>
          if CHR ''.'' \<notin> set (hostname u) then Inr False
          else if suffix ''.test'' (hostname u) \<or> suffix ''.example'' (hostname u) \<or>
                  suffix ''.invalid'' (hostname u) \<or> suffix ''.localhost'' (hostname u)
            then Inr False
          else if isIPv4 (hostname u) \<or>
                  (prefix ''['' (hostname u) \<and> suffix '']'' (hostname u))
            then Inr False
          else if isExcluded domains (hostname u) then Inr False
          else Inr True)"

section \<open>Redirect decision: the derived-URL heuristic\<close>

text \<open>\<^verbatim>\<open>isDerivedURL(currentUrl, requestedUrl)\<close>. The constructor call for the current
  URL is inside \<^verbatim>\<open>try\<close>, the one for the requested URL is not.\<close>

definition isDerivedURL ::
  "(string \<Rightarrow> parsedURL option) \<Rightarrow> string \<Rightarrow> string \<Rightarrow> error + bool" where
  "isDerivedURL URL currentUrl requestedUrl =
     (if currentUrl = requestedUrl then Inr True
      else if \<not> prefix ''http'' currentUrl then Inr False
      else (case URL currentUrl of
              None \<Rightarrow> Inr False
            | Some cur \<Rightarrow>
                (case URL requestedUrl of
                   None \<Rightarrow> Inl TypeError
                 | Some req \<Rightarrow>
                     if hostname req = hostname cur then Inr True
                     else if protocol cur = ''https:'' then Inr False
                     else if (length (pathname req) > 1 \<or>
                              length (search req) > 2 \<or>
                              length (hash req) > 2) \<and>
                             pathname req = pathname cur \<and>
                             search req = search cur \<and>
                             hash req = hash cur
                       then Inr True
                     else Inr False)))"

section \<open>Events and state\<close>

text \<open>
  The values a request id variable can hold: \<^verbatim>\<open>undefined\<close>, \<^verbatim>\<open>null\<close> or a string.
  Strict equality \<^verbatim>\<open>===\<close> on them is equality of the datatype.
\<close>

datatype jsval = Undefined | Null | Str string

text \<open>
  A tab id is a number or \<^verbatim>\<open>undefined\<close> (\<open>None\<close>): \<^verbatim>\<open>tabs.Tab.id\<close> is an optional
  property, and the three Maps are keyed by whatever the listeners are given.
  Times are milliseconds, as \<^verbatim>\<open>Date.now()\<close> and \<^verbatim>\<open>details.timeStamp\<close> give them.
\<close>

type_synonym tabid = "int option"

record tab =
  tab_id :: tabid
  tab_url :: string
  status :: string
  active :: bool
  lastAccessed :: "int option"

text \<open>
  The details object of a webRequest event. The browser delivers \<open>tabId\<close>, \<open>url\<close>,
  \<open>requestId\<close>, \<open>originUrl\<close> (optional) and \<open>timeStamp\<close>. The field \<open>requestedId\<close>
  is what reading the property \<^verbatim>\<open>requestedId\<close> of the object gives: the listeners of
  background.js destructure that name. The webRequest interface defines no such
  property, so for an event that comes from the browser the value is \<^verbatim>\<open>undefined\<close>.
\<close>

record details =
  tabId :: tabid
  url :: string
  requestId :: string
  requestedId :: jsval
  originUrl :: "string option"
  timeStamp :: int

record responseDetails = details +
  statusCode :: int

definition fromBrowser :: "'a details_scheme \<Rightarrow> bool" where
  "fromBrowser d \<longleftrightarrow> requestedId d = Undefined"

text \<open>
  One call of \<^verbatim>\<open>registerRedirectInfo\<close> creates the object \<^verbatim>\<open>redirectInfo\<close> and the
  closures \<^verbatim>\<open>unregister\<close> and \<^verbatim>\<open>onHeadersReceived\<close>. All three are identified by one
  reference; the record holds the fields of the object (\<open>info_url\<close> is its \<^verbatim>\<open>url\<close>)
  and the variable \<^verbatim>\<open>tabId\<close> that the closures capture.
\<close>

record redirectInfo =
  captured_tabId :: tabid
  info_url :: string
  redirectedRequestId :: jsval

text \<open>
  The process-wide state: the three Maps of background.js, the instances created so
  far, and for each webRequest event the set of instances whose listener is registered
  (\<^verbatim>\<open>addListener\<close> does not register a function twice). \<open>headersReceivedListeners\<close>
  holds closures \<^verbatim>\<open>onHeadersReceived\<close>; the other two hold closures \<^verbatim>\<open>unregister\<close>.
\<close>

record state =
  tabCreationTimes :: "tabid \<rightharpoonup> int"
  tabActivatedTimes :: "tabid \<rightharpoonup> int"
  tabPendingRedirectInfos :: "tabid \<rightharpoonup> nat"
  objects :: "nat \<rightharpoonup> redirectInfo"
  nextObject :: nat
  headersReceivedListeners :: "nat set"
  responseStartedListeners :: "nat set"
  errorOccurredListeners :: "nat set"

definition init :: state where
  "init = \<lparr>tabCreationTimes = Map.empty, tabActivatedTimes = Map.empty,
           tabPendingRedirectInfos = Map.empty, objects = Map.empty, nextObject = 0,
           headersReceivedListeners = {}, responseStartedListeners = {},
           errorOccurredListeners = {}\<rparr>"

section \<open>Tab timing ledger\<close>

text \<open>Truthiness of an optional number: \<^verbatim>\<open>undefined\<close> and \<^verbatim>\<open>0\<close> are falsy.\<close>

definition truthyNumber :: "int option \<Rightarrow> bool" where
  "truthyNumber n = (case n of None \<Rightarrow> False | Some k \<Rightarrow> k \<noteq> 0)"

text \<open>Truthiness of an optional string: \<^verbatim>\<open>undefined\<close> and \<^verbatim>\<open>''\<close> are falsy.\<close>

definition truthyString :: "string option \<Rightarrow> bool" where
  "truthyString x = (case x of None \<Rightarrow> False | Some v \<Rightarrow> v \<noteq> [])"

text \<open>The \<^verbatim>\<open>tabs.onCreated\<close> listener; \<open>now\<close> and \<open>now'\<close> are its two readings of
  the clock.\<close>

definition onCreated :: "tab \<Rightarrow> int \<Rightarrow> int \<Rightarrow> state \<Rightarrow> state" where
  "onCreated t now now' s =
     (if truthyNumber (tab_id t)
      then (let s1 = s\<lparr>tabCreationTimes := (tabCreationTimes s)(tab_id t \<mapsto> now)\<rparr>
            in if active t
               then s1\<lparr>tabActivatedTimes := (tabActivatedTimes s1)(tab_id t \<mapsto> now')\<rparr>
               else s1)
      else s)"

definition onActivated :: "tabid \<Rightarrow> int \<Rightarrow> state \<Rightarrow> state" where
  "onActivated i now s = s\<lparr>tabActivatedTimes := (tabActivatedTimes s)(i \<mapsto> now)\<rparr>"

text \<open>The callback of \<^verbatim>\<open>tabs.query({})\<close>: one loop round per tab, each with its clock
  readings.\<close>

fun onQueried :: "(tab \<times> int \<times> int) list \<Rightarrow> state \<Rightarrow> state" where
  "onQueried [] s = s"
| "onQueried ((t, now, now') # rest) s =
     onQueried rest
       (s\<lparr>tabCreationTimes := (tabCreationTimes s)
             (tab_id t \<mapsto> (case lastAccessed t of
                               None \<Rightarrow> now
                             | Some a \<Rightarrow> if a = 0 then now else a)),
          tabActivatedTimes := (tabActivatedTimes s)
             (tab_id t \<mapsto> (if active t then now' else 0))\<rparr>)"

section \<open>Redirect tracking\<close>

text \<open>The closure \<^verbatim>\<open>unregister\<close> of instance \<open>r\<close>: it removes the three listeners of
  its own instance and deletes the entry of its captured tab id.\<close>

definition unregister :: "nat \<Rightarrow> state \<Rightarrow> state" where
  "unregister r s =
     (case objects s r of
        None \<Rightarrow> s
      | Some inst \<Rightarrow>
          s\<lparr>headersReceivedListeners := headersReceivedListeners s - {r},
            responseStartedListeners := responseStartedListeners s - {r},
            errorOccurredListeners := errorOccurredListeners s - {r},
            tabPendingRedirectInfos :=
              (tabPendingRedirectInfos s)(captured_tabId inst := None)\<rparr>)"

definition isRedirectStatus :: "int \<Rightarrow> bool" where
  "isRedirectStatus c \<longleftrightarrow> c = 301 \<or> c = 302 \<or> c = 303 \<or> c = 307 \<or> c = 308"

text \<open>The closure \<^verbatim>\<open>onHeadersReceived\<close> of instance \<open>r\<close>.\<close>

definition onHeadersReceived :: "nat \<Rightarrow> responseDetails \<Rightarrow> state \<Rightarrow> state" where
  "onHeadersReceived r ev s =
     (case objects s r of
        None \<Rightarrow> s
      | Some inst \<Rightarrow>
          if \<not> isRedirectStatus (statusCode ev) then unregister r s
          else if tabPendingRedirectInfos s (captured_tabId inst) \<noteq> Some r then s
          else s\<lparr>objects := (objects s)(r \<mapsto> inst\<lparr>redirectedRequestId := requestedId ev\<rparr>),
                 responseStartedListeners := insert r (responseStartedListeners s)\<rparr>)"

definition unregisterRedirectInfo :: "tabid \<Rightarrow> state \<Rightarrow> state" where
  "unregisterRedirectInfo i s =
     (case tabPendingRedirectInfos s i of
        None \<Rightarrow> s
      | Some r \<Rightarrow>
          (let s1 = unregister r s
           in s1\<lparr>tabPendingRedirectInfos := (tabPendingRedirectInfos s1)(i := None)\<rparr>))"

definition registerRedirectInfo :: "tabid \<Rightarrow> string \<Rightarrow> state \<Rightarrow> state" where
  "registerRedirectInfo i requestedUrl s =
     (let s1 = unregisterRedirectInfo i s;
          r = nextObject s1
      in s1\<lparr>objects := (objects s1)
               (r \<mapsto> \<lparr>captured_tabId = i, info_url = requestedUrl,
                       redirectedRequestId = Null\<rparr>),
            nextObject := Suc r,
            headersReceivedListeners := insert r (headersReceivedListeners s1),
            errorOccurredListeners := insert r (errorOccurredListeners s1),
            tabPendingRedirectInfos := (tabPendingRedirectInfos s1)(i \<mapsto> r)\<rparr>)"

text \<open>The \<^verbatim>\<open>tabs.onRemoved\<close> listener.\<close>

definition onRemoved :: "tabid \<Rightarrow> state \<Rightarrow> state" where
  "onRemoved i s =
     unregisterRedirectInfo i
       (s\<lparr>tabCreationTimes := (tabCreationTimes s)(i := None),
          tabActivatedTimes := (tabActivatedTimes s)(i := None)\<rparr>)"

section \<open>Redirect decision: the request listener\<close>

datatype blockingResponse = NoChange | RedirectTo string

text \<open>
  \<^verbatim>\<open>browser.tabs.get(tabId)\<close> against the browser's table of tabs: the promise is
  rejected when the id is not a number or no tab has it.
\<close>

definition tabsGet :: "(int \<rightharpoonup> tab) \<Rightarrow> tabid \<Rightarrow> tab option" where
  "tabsGet browserTabs i = (case i of None \<Rightarrow> None | Some k \<Rightarrow> browserTabs k)"

text \<open>
  The polling loop of lines 94 to 103. The loop does not leave on success: every round
  within the 200 ms asks again and a success overwrites \<^verbatim>\<open>currentTab\<close>, a failure
  keeps it. The list holds the browser's table of tabs at each round; the clock decides
  how many rounds there are, and there is at least one.
\<close>

fun pollTab :: "tab option \<Rightarrow> (int \<rightharpoonup> tab) list \<Rightarrow> tabid \<Rightarrow> tab option" where
  "pollTab currentTab [] i = currentTab"
| "pollTab currentTab (browserTabs # rounds) i =
     (case tabsGet browserTabs i of
        Some t \<Rightarrow> pollTab (Some t) rounds i
      | None \<Rightarrow> pollTab currentTab rounds i)"

text \<open>\<^verbatim>\<open>details.timeStamp - t < bound\<close>: with \<^verbatim>\<open>t\<close> undefined the difference is NaN
  and the comparison is false.\<close>

definition elapsedLess :: "int \<Rightarrow> int option \<Rightarrow> int \<Rightarrow> bool" where
  "elapsedLess stamp t bound = (case t of None \<Rightarrow> False | Some v \<Rightarrow> stamp - v < bound)"

text \<open>The body of the \<^verbatim>\<open>about:blank\<close> branch, lines 110 to 138: \<open>True\<close> when it
  returns from the listener.\<close>

definition aboutBlankReturns :: "tab \<Rightarrow> details \<Rightarrow> state \<Rightarrow> bool" where
  "aboutBlankReturns currentTab d s =
     (case tabCreationTimes s (tabId d) of
        None \<Rightarrow> True
      | Some tabCreationTime \<Rightarrow>
          (let tabActivatedTime =
                 (if tabId d = None then lastAccessed currentTab
                  else tabActivatedTimes s (tabId d))
           in if elapsedLess (timeStamp d) tabActivatedTime 1000 then True
              else if elapsedLess (timeStamp d) (tabCreationTimes s (tabId d)) 300 then True
              else False))"

definition pendingRedirectInfo :: "state \<Rightarrow> tabid \<Rightarrow> redirectInfo option" where
  "pendingRedirectInfo s i =
     (case tabPendingRedirectInfos s i of None \<Rightarrow> None | Some r \<Rightarrow> objects s r)"

text \<open>The two checks of lines 149 to 160.\<close>

definition retriedRequest :: "state \<Rightarrow> details \<Rightarrow> bool" where
  "retriedRequest s d =
     (case pendingRedirectInfo s (tabId d) of
        None \<Rightarrow> False
      | Some p \<Rightarrow> redirectedRequestId p = requestedId d)"

definition sameUrlWhileLoading :: "state \<Rightarrow> tab option \<Rightarrow> details \<Rightarrow> bool" where
  "sameUrlWhileLoading s currentTab d =
     (case pendingRedirectInfo s (tabId d) of
        None \<Rightarrow> False
      | Some p \<Rightarrow>
          info_url p = url d \<and>
          (case currentTab of None \<Rightarrow> False | Some t \<Rightarrow> status t = ''loading''))"

text \<open>Lines 105 to 173, which run without interruption once the polling is over.\<close>

definition decide ::
  "(string \<Rightarrow> parsedURL option) \<Rightarrow> tab option \<Rightarrow> details \<Rightarrow> state \<Rightarrow>
   (error + blockingResponse) \<times> state" where
  "decide URL currentTab d s =
     (if (case currentTab of
            None \<Rightarrow> False
          | Some t \<Rightarrow> tab_url t = ''about:blank'' \<and> aboutBlankReturns t d s)
      then (Inr NoChange, s)
      else (case (case currentTab of
                    None \<Rightarrow> Inr False
                  | Some t \<Rightarrow> isDerivedURL URL (tab_url t) (url d)) of
              Inl e \<Rightarrow> (Inl e, s)
            | Inr derived \<Rightarrow>
                if derived then (Inr NoChange, s)
                else if tabCreationTimes s (tabId d) \<noteq> None
                  then (if retriedRequest s d then (Inr NoChange, s)
                        else if sameUrlWhileLoading s currentTab d then (Inr NoChange, s)
                        else (Inr (RedirectTo (replaceColon (url d))),
                              registerRedirectInfo (tabId d) (url d) s))
                else (Inr (RedirectTo (replaceColon (url d))), s)))"

text \<open>
  The \<^verbatim>\<open>webRequest.onBeforeRequest\<close> listener. \<open>domains\<close> is
  \<^verbatim>\<open>prefsParsed.domains_nohttps\<close> when line 90 runs, \<open>rounds\<close> are the rounds of the
  polling loop, and \<open>s\<close> is the state when the loop is over. A TypeError rejects the
  promise that the listener returns.
\<close>

definition onBeforeRequest ::
  "(string \<Rightarrow> parsedURL option) \<Rightarrow> trie \<Rightarrow> (int \<rightharpoonup> tab) list \<Rightarrow> details \<Rightarrow> state \<Rightarrow>
   (error + blockingResponse) \<times> state" where
  "onBeforeRequest URL domains rounds d s =
     (if truthyString (originUrl d) then (Inr NoChange, s)
      else if tabId d = Some (- 1) then (Inr NoChange, s)
      else (case shouldRedirectToHttps URL domains (url d) of
              Inl e \<Rightarrow> (Inl e, s)
            | Inr redirect \<Rightarrow>
                if \<not> redirect then (Inr NoChange, s)
                else decide URL (pollTab None rounds (tabId d)) d s))"

section \<open>Runs of the extension\<close>

text \<open>
  What the browser can do to the extension. A response-phase event names the instance
  whose closure is called; the browser may call a closure that was already removed when
  the event was queued before the removal. The listener of the response-started and
  of the request-error event of an instance is its closure \<^verbatim>\<open>unregister\<close>.
\<close>

datatype event =
    TabCreated tab int int
  | TabActivated tabid int
  | TabRemoved tabid
  | TabsQueried "(tab \<times> int \<times> int) list"
  | BeforeRequest trie "(int \<rightharpoonup> tab) list" details
  | HeadersReceived nat responseDetails
  | ResponseStarted nat
  | ErrorOccurred nat

fun step :: "(string \<Rightarrow> parsedURL option) \<Rightarrow> event \<Rightarrow> state \<Rightarrow> state" where
  "step URL (TabCreated t now now') s = onCreated t now now' s"
| "step URL (TabActivated i now) s = onActivated i now s"
| "step URL (TabRemoved i) s = onRemoved i s"
| "step URL (TabsQueried ts) s = onQueried ts s"
| "step URL (BeforeRequest domains rounds d) s = snd (onBeforeRequest URL domains rounds d s)"
| "step URL (HeadersReceived r ev) s = onHeadersReceived r ev s"
| "step URL (ResponseStarted r) s = unregister r s"
| "step URL (ErrorOccurred r) s = unregister r s"

fun run :: "(string \<Rightarrow> parsedURL option) \<Rightarrow> event list \<Rightarrow> state \<Rightarrow> state" where
  "run URL [] s = s"
| "run URL (e # es) s = run URL es (step URL e s)"

section \<open>Scenarios\<close>

text \<open>
  The concrete tabs, requests and responses of the scenarios. Tab 1 is created active
  on \<^verbatim>\<open>about:blank\<close> at time \<open>T0\<close>; the user then types \<^verbatim>\<open>http://example.com/\<close>.
\<close>

definition T0 :: int where
  "T0 = 1000000"

definition blankTab :: tab where
  "blankTab = \<lparr>tab_id = Some 1, tab_url = ''about:blank'', status = ''complete'',
     active = True, lastAccessed = Some T0\<rparr>"

definition exampleRequest :: "int \<Rightarrow> details" where
  "exampleRequest stamp = \<lparr>tabId = Some 1, url = ''http://example.com/'', requestId = ''17'',
     requestedId = Undefined, originUrl = None, timeStamp = stamp\<rparr>"

definition createdState :: state where
  "createdState = onCreated blankTab T0 T0 init"

definition armedState :: state where
  "armedState = snd (onBeforeRequest parseURL (doParsePrefs []) [[1 \<mapsto> blankTab]]
     (exampleRequest (T0 + 2000)) createdState)"

text \<open>The server answers the upgraded request 17 with status 302; while that redirect
  is followed, the user types another address, which the browser sends as request 99.\<close>

definition redirectResponse :: responseDetails where
  "redirectResponse = \<lparr>tabId = Some 1, url = ''https://example.com/'', requestId = ''17'',
     requestedId = Undefined, originUrl = None, timeStamp = T0 + 2300, statusCode = 302\<rparr>"

definition redirectObservedState :: state where
  "redirectObservedState = onHeadersReceived 0 redirectResponse armedState"

definition loadingTab :: tab where
  "loadingTab = \<lparr>tab_id = Some 1, tab_url = ''https://example.com/'', status = ''loading'',
     active = True, lastAccessed = Some T0\<rparr>"

definition otherRequest :: details where
  "otherRequest = \<lparr>tabId = Some 1, url = ''http://other.org/'', requestId = ''99'',
     requestedId = Undefined, originUrl = None, timeStamp = T0 + 2400\<rparr>"

text \<open>Tab 2 is created in the background and never activated.\<close>

definition backgroundTab :: tab where
  "backgroundTab = \<lparr>tab_id = Some 2, tab_url = ''about:blank'', status = ''complete'',
     active = False, lastAccessed = Some T0\<rparr>"

definition backgroundRequest :: details where
  "backgroundRequest = \<lparr>tabId = Some 2, url = ''http://example.com/'', requestId = ''23'',
     requestedId = Undefined, originUrl = None, timeStamp = T0 + 500\<rparr>"

text \<open>A second upgrade on tab 1 supersedes the first one before the response to the
  first has been dispatched; that response has status 200.\<close>

definition secondRequest :: details where
  "secondRequest = \<lparr>tabId = Some 1, url = ''http://second.org/'', requestId = ''18'',
     requestedId = Undefined, originUrl = None, timeStamp = T0 + 2100\<rparr>"

definition okResponse :: responseDetails where
  "okResponse = \<lparr>tabId = Some 1, url = ''https://example.com/'', requestId = ''17'',
     requestedId = Undefined, originUrl = None, timeStamp = T0 + 2200, statusCode = 200\<rparr>"

definition supersededRun :: "event list" where
  "supersededRun =
     [TabCreated blankTab T0 T0,
      BeforeRequest (doParsePrefs []) [[1 \<mapsto> blankTab]] (exampleRequest (T0 + 2000)),
      BeforeRequest (doParsePrefs []) [[1 \<mapsto> blankTab]] secondRequest]"

text \<open>A request for a tab whose creation the extension never saw.\<close>

definition untrackedRequest :: details where
  "untrackedRequest = \<lparr>tabId = Some 5, url = ''http://example.com/'', requestId = ''31'',
     requestedId = Undefined, originUrl = None, timeStamp = 9000\<rparr>"

section \<open>Evaluation rules\<close>

lemmas parse_simps = parseURL_def parseAfterScheme_def
lemmas filter_simps = shouldRedirectToHttps_def isIPv4_def isDigit_def suffix_to_prefix
  isExcluded_def doParsePrefs_def newMap_def
lemmas listener_simps = onBeforeRequest_def decide_def truthyString_def tabsGet_def
  aboutBlankReturns_def elapsedLess_def isDerivedURL_def retriedRequest_def
  sameUrlWhileLoading_def pendingRedirectInfo_def
lemmas tracking_simps = registerRedirectInfo_def unregisterRedirectInfo_def unregister_def
  onHeadersReceived_def isRedirectStatus_def Let_def
lemmas ledger_simps = onCreated_def onActivated_def onRemoved_def truthyNumber_def init_def

section \<open>The suppression index excludes exactly the pattern suffixes\<close>

lemma split_nonempty: "split sep s \<noteq> []"
  by (induction s) (auto split: list.splits)

lemma split_append: "split sep (x @ sep # y) = split sep x @ split sep y"
  by (induction x) (auto split: list.splits simp: split_nonempty)

lemma join_split: "joinWith sep (split sep s) = s"
proof (induction s)
  case Nil
  show ?case by simp
next
  case (Cons c s)
  obtain p ps where sp: "split sep s = p # ps"
    using split_nonempty [of sep s] by (cases "split sep s") auto
  show ?case
  proof (cases "c = sep")
    case True
    with Cons sp show ?thesis by simp
  next
    case False
    with Cons sp show ?thesis by (cases ps) auto
  qed
qed

lemma join_append:
  "xs \<noteq> [] \<Longrightarrow> ys \<noteq> [] \<Longrightarrow>
   joinWith sep (xs @ ys) = joinWith sep xs @ sep # joinWith sep ys"
proof (induction sep xs rule: joinWith.induct)
  case (2 sep p)
  then show ?case by (cases ys) auto
qed auto

lemma suffix_split_iff:
  "suffix (split sep p) (split sep h) \<longleftrightarrow> h = p \<or> (\<exists>x. h = x @ sep # p)"
proof
  assume "suffix (split sep p) (split sep h)"
  then obtain xs where xs: "split sep h = xs @ split sep p"
    by (auto simp: suffix_def)
  show "h = p \<or> (\<exists>x. h = x @ sep # p)"
  proof (cases "xs = []")
    case True
    with xs have "joinWith sep (split sep h) = joinWith sep (split sep p)" by simp
    then show ?thesis by (simp add: join_split)
  next
    case False
    have "h = joinWith sep (xs @ split sep p)"
      using xs join_split [of sep h] by simp
    also have "\<dots> = joinWith sep xs @ sep # p"
      using False by (simp add: join_append split_nonempty join_split)
    finally show ?thesis by blast
  qed
next
  assume "h = p \<or> (\<exists>x. h = x @ sep # p)"
  then show "suffix (split sep p) (split sep h)"
    by (auto simp: split_append suffix_def)
qed

lemma leaf_insertParts: "leaf (insertParts (p # ps) t) = leaf t"
  by (cases t) simp

lemma lookupParts_newMap: "lookupParts ls newMap = False"
  by (cases ls) (auto simp: newMap_def)

lemma lookupParts_root: "lookupParts ls (Node l m) = lookupParts ls (Node l' m)"
  by (cases ls) auto

text \<open>Inserting a pattern adds exactly the label lists that start with it.\<close>

lemma lookup_insert:
  "lookupParts ls (insertParts parts t) \<longleftrightarrow>
     lookupParts ls t \<or> (parts \<noteq> [] \<and> prefix parts ls)"
proof (induction parts t arbitrary: ls rule: insertParts.induct)
  case (1 l m)
  show ?case using lookupParts_root [of ls True m l] by simp
next
  case (2 part parts l m)
  define sub0 where "sub0 = (case m part of None \<Rightarrow> newMap | Some sub \<Rightarrow> sub)"
  show ?case
  proof (cases ls)
    case Nil
    then show ?thesis by simp
  next
    case (Cons a as)
    show ?thesis
    proof (cases "a = part")
      case False
      with Cons show ?thesis by simp
    next
      case True
      have IH: "lookupParts as (insertParts parts sub0) \<longleftrightarrow>
                  lookupParts as sub0 \<or> (parts \<noteq> [] \<and> prefix parts as)"
        unfolding sub0_def by (rule "2.IH")
      have old: "lookupParts (part # as) (Node l m) \<longleftrightarrow>
                   (m part \<noteq> None \<and> (leaf sub0 \<or> lookupParts as sub0))"
        by (cases "m part") (simp_all add: sub0_def)
      have new: "lookupParts (part # as) (insertParts (part # parts) (Node l m)) \<longleftrightarrow>
                   leaf (insertParts parts sub0) \<or> lookupParts as (insertParts parts sub0)"
        by (simp add: sub0_def)
      have none: "m part = None \<Longrightarrow> \<not> leaf sub0 \<and> \<not> lookupParts as sub0"
        by (simp add: sub0_def lookupParts_newMap) (simp add: newMap_def)
      show ?thesis
      proof (cases parts)
        case Nil
        have "leaf (insertParts [] sub0)" by (cases sub0) simp
        with Nil new Cons True show ?thesis by simp
      next
        case (Cons p ps)
        have "leaf (insertParts parts sub0) = leaf sub0"
          unfolding Cons by (rule leaf_insertParts)
        with new IH old none \<open>ls = a # as\<close> True Cons show ?thesis by auto
      qed
    qed
  qed
qed

lemma lookup_insertDomains:
  "lookupParts ls (insertDomains ds t) \<longleftrightarrow>
     lookupParts ls t \<or> (\<exists>d \<in> set ds. d \<noteq> [] \<and> prefix (rev (split CHR ''.'' d)) ls)"
  by (induction ds arbitrary: t) (auto simp: lookup_insert split_nonempty)

lemma isExcluded_doParsePrefs:
  "isExcluded (doParsePrefs prefs) host \<longleftrightarrow>
     (\<exists>p \<in> set (splitWhiteSpace [] prefs). p \<noteq> [] \<and>
        (host = p \<or> (\<exists>x. host = x @ CHR ''.'' # p)))"
proof (cases "prefs = []")
  case True
  then show ?thesis
    by (simp add: doParsePrefs_def isExcluded_def lookupParts_newMap)
next
  case False
  then show ?thesis
    by (simp add: doParsePrefs_def isExcluded_def lookup_insertDomains lookupParts_newMap
        suffix_split_iff [symmetric] suffix_to_prefix)
qed

text \<open>
  Claim C8. For every preference text and every host name: once the index is built
  from the text, the host name is excluded if and only if some non-empty piece \<open>p\<close>
  of the text between white space is the host name itself or the host name ends in a
  dot followed by \<open>p\<close>.
\<close>

theorem isExcluded_iff_pattern_suffix:
  "isExcluded (doParsePrefs domains_nohttps) host \<longleftrightarrow>
     (\<exists>p \<in> set (splitWhiteSpace [] domains_nohttps). p \<noteq> [] \<and>
        (host = p \<or> (\<exists>x. host = x @ ''.'' @ p)))"
  using isExcluded_doParsePrefs [of domains_nohttps host] by simp

text \<open>With the patterns \<^verbatim>\<open>a.b.c\<close> and \<^verbatim>\<open>x.org\<close>: a pattern and a subdomain of a
  pattern are excluded, the parent \<^verbatim>\<open>b.c\<close> of a pattern is not.\<close>

theorem isExcluded_iff_pattern_suffix_witness:
  "isExcluded (doParsePrefs ''a.b.c  x.org'') ''a.b.c'' \<and>
   isExcluded (doParsePrefs ''a.b.c  x.org'') ''www.x.org'' \<and>
   \<not> isExcluded (doParsePrefs ''a.b.c  x.org'') ''b.c''"
proof -
  have pieces: "splitWhiteSpace [] ''a.b.c  x.org'' = [''a.b.c'', ''x.org'']"
    by (simp add: isWhiteSpace_def)
  have "\<exists>x. ''www.x.org'' = x @ ''.'' @ ''x.org''"
    by (rule exI [of _ "''www''"]) simp
  moreover have "''b.c'' \<noteq> x @ ''.'' @ p" if "3 < length p" for x p
  proof
    assume "''b.c'' = x @ ''.'' @ p"
    then have "length ''b.c'' = length (x @ ''.'' @ p)" by (rule arg_cong)
    with that show False by simp
  qed
  ultimately show ?thesis
    using isExcluded_iff_pattern_suffix [of "''a.b.c  x.org''" "''a.b.c''"]
      isExcluded_iff_pattern_suffix [of "''a.b.c  x.org''" "''www.x.org''"]
      isExcluded_iff_pattern_suffix [of "''a.b.c  x.org''" "''b.c''"]
    unfolding pieces by simp
qed

section \<open>The host name filter\<close>

lemma split_without_sep: "sep \<notin> set a \<Longrightarrow> split sep a = [a]"
  by (induction a) auto

text \<open>Four groups of one to three digits with dots between them are an IPv4 literal
  for the filter.\<close>

lemma isIPv4_groups:
  assumes "\<forall>g \<in> set [a, b, c, d].
             1 \<le> length g \<and> length g \<le> 3 \<and> set g \<subseteq> set ''0123456789''"
  shows "isIPv4 (a @ ''.'' @ b @ ''.'' @ c @ ''.'' @ d)"
proof -
  have nd: "CHR ''.'' \<notin> set ''0123456789''" by simp
  have group: "1 \<le> length g \<and> length g \<le> 3 \<and> list_all isDigit g \<and> CHR ''.'' \<notin> set g"
    if "g \<in> set [a, b, c, d]" for g
  proof -
    from assms that have "1 \<le> length g" "length g \<le> 3" "set g \<subseteq> set ''0123456789''"
      by blast+
    moreover from this(3) nd have "CHR ''.'' \<notin> set g" by blast
    moreover from \<open>set g \<subseteq> set ''0123456789''\<close> have "list_all isDigit g"
      unfolding list_all_iff isDigit_def by blast
    ultimately show ?thesis by blast
  qed
  have ga: "a \<in> set [a, b, c, d]" and gb: "b \<in> set [a, b, c, d]"
    and gc: "c \<in> set [a, b, c, d]" and gd: "d \<in> set [a, b, c, d]"
    by simp_all
  have "split CHR ''.'' (a @ ''.'' @ b @ ''.'' @ c @ ''.'' @ d) = [a, b, c, d]"
    using group [OF ga] group [OF gb] group [OF gc] group [OF gd]
    by (simp add: split_append split_without_sep)
  then show ?thesis
    using group [OF ga] group [OF gb] group [OF gc] group [OF gd]
    by (simp add: isIPv4_def)
qed

lemma shouldRedirectToHttps_six:
  "shouldRedirectToHttps parseURL (doParsePrefs []) ''http://localhost/'' = Inr False \<and>
   shouldRedirectToHttps parseURL (doParsePrefs []) ''http://192.168.1.1/'' = Inr False \<and>
   shouldRedirectToHttps parseURL (doParsePrefs []) ''http://[::1]/'' = Inr False \<and>
   shouldRedirectToHttps parseURL (doParsePrefs []) ''http://site.test/'' = Inr False \<and>
   shouldRedirectToHttps parseURL (doParsePrefs []) ''http://nodomain/'' = Inr False \<and>
   shouldRedirectToHttps parseURL (doParsePrefs []) ''http://example.com/'' = Inr True"
proof (intro conjI)
  show "shouldRedirectToHttps parseURL (doParsePrefs []) ''http://localhost/'' = Inr False"
    by (simp add: parse_simps shouldRedirectToHttps_def)
  show "shouldRedirectToHttps parseURL (doParsePrefs []) ''http://192.168.1.1/'' = Inr False"
    by (simp add: parse_simps shouldRedirectToHttps_def isIPv4_def isDigit_def suffix_to_prefix)
  show "shouldRedirectToHttps parseURL (doParsePrefs []) ''http://[::1]/'' = Inr False"
    by (simp add: parse_simps shouldRedirectToHttps_def)
  show "shouldRedirectToHttps parseURL (doParsePrefs []) ''http://site.test/'' = Inr False"
    by (simp add: parse_simps shouldRedirectToHttps_def suffix_to_prefix)
  show "shouldRedirectToHttps parseURL (doParsePrefs []) ''http://nodomain/'' = Inr False"
    by (simp add: parse_simps shouldRedirectToHttps_def)
  show "shouldRedirectToHttps parseURL (doParsePrefs []) ''http://example.com/'' = Inr True"
    by (simp add: parse_simps filter_simps)
qed

text \<open>
  Claim C9. For every URL that the platform parses, whatever the parser and the index:
  \<open>shouldRedirectToHttps\<close> is true exactly when the host name has a dot, does not
  end in \<^verbatim>\<open>.test\<close>, \<^verbatim>\<open>.example\<close>, \<^verbatim>\<open>.invalid\<close> or \<^verbatim>\<open>.localhost\<close>, is not an IPv4
  literal, is not enclosed in brackets and is not excluded by the index; so dotless host
  names, the reserved top-level domains, IPv4 literals and bracketed IPv6 literals are
  all rejected. Four dot-separated groups of one to three digits are an IPv4 literal,
  and the index built from the empty preference excludes nothing. In particular, with
  that index the function is false for \<^verbatim>\<open>http://localhost/\<close>,
  \<^verbatim>\<open>http://192.168.1.1/\<close>, \<^verbatim>\<open>http://[::1]/\<close>, \<^verbatim>\<open>http://site.test/\<close> and
  \<^verbatim>\<open>http://nodomain/\<close>, and true for \<^verbatim>\<open>http://example.com/\<close>.
\<close>

theorem shouldRedirectToHttps_filter:
  "(URL requestedUrl = Some u \<longrightarrow>
      shouldRedirectToHttps URL domains requestedUrl =
        Inr (CHR ''.'' \<in> set (hostname u) \<and>
             \<not> suffix ''.test'' (hostname u) \<and> \<not> suffix ''.example'' (hostname u) \<and>
             \<not> suffix ''.invalid'' (hostname u) \<and> \<not> suffix ''.localhost'' (hostname u) \<and>
             \<not> isIPv4 (hostname u) \<and>
             \<not> (prefix ''['' (hostname u) \<and> suffix '']'' (hostname u)) \<and>
             \<not> isExcluded domains (hostname u))) \<and>
   ((\<forall>g \<in> set [a, b, c, d].
        1 \<le> length g \<and> length g \<le> 3 \<and> set g \<subseteq> set ''0123456789'') \<longrightarrow>
      isIPv4 (a @ ''.'' @ b @ ''.'' @ c @ ''.'' @ d)) \<and>
   \<not> isExcluded (doParsePrefs []) h \<and>
   shouldRedirectToHttps parseURL (doParsePrefs []) ''http://localhost/'' = Inr False \<and>
   shouldRedirectToHttps parseURL (doParsePrefs []) ''http://192.168.1.1/'' = Inr False \<and>
   shouldRedirectToHttps parseURL (doParsePrefs []) ''http://[::1]/'' = Inr False \<and>
   shouldRedirectToHttps parseURL (doParsePrefs []) ''http://site.test/'' = Inr False \<and>
   shouldRedirectToHttps parseURL (doParsePrefs []) ''http://nodomain/'' = Inr False \<and>
   shouldRedirectToHttps parseURL (doParsePrefs []) ''http://example.com/'' = Inr True"
proof -
  have general: "shouldRedirectToHttps URL domains requestedUrl =
        Inr (CHR ''.'' \<in> set (hostname u) \<and>
             \<not> suffix ''.test'' (hostname u) \<and> \<not> suffix ''.example'' (hostname u) \<and>
             \<not> suffix ''.invalid'' (hostname u) \<and> \<not> suffix ''.localhost'' (hostname u) \<and>
             \<not> isIPv4 (hostname u) \<and>
             \<not> (prefix ''['' (hostname u) \<and> suffix '']'' (hostname u)) \<and>
             \<not> isExcluded domains (hostname u))"
    if "URL requestedUrl = Some u"
    using that unfolding shouldRedirectToHttps_def by simp
  have empty: "\<not> isExcluded (doParsePrefs []) h"
    by (simp add: isExcluded_def doParsePrefs_def lookupParts_newMap)
  show ?thesis
    using general isIPv4_groups [of a b c d] empty shouldRedirectToHttps_six
    by blast
qed

text \<open>A reserved name, a subdomain of a pattern of the index, a private IPv4 address
  and a host that passes every test.\<close>

theorem shouldRedirectToHttps_filter_witness:
  "shouldRedirectToHttps parseURL (doParsePrefs []) ''http://site.invalid/'' = Inr False \<and>
   shouldRedirectToHttps parseURL (doParsePrefs ''example.com'') ''http://www.example.com/'' =
     Inr False \<and>
   isIPv4 ''10.0.0.1'' \<and>
   shouldRedirectToHttps parseURL (doParsePrefs []) ''http://www.example.com/'' = Inr True"
proof -
  have invalid: "parseURL ''http://site.invalid/'' = Some \<lparr>protocol = ''http:'',
      hostname = ''site.invalid'', pathname = ''/'', search = [], hash = []\<rparr>"
    and www: "parseURL ''http://www.example.com/'' = Some \<lparr>protocol = ''http:'',
      hostname = ''www.example.com'', pathname = ''/'', search = [], hash = []\<rparr>"
    by (simp_all add: parse_simps)
  have excluded: "isExcluded (doParsePrefs ''example.com'') ''www.example.com''"
    by (simp add: isExcluded_def doParsePrefs_def newMap_def isWhiteSpace_def)
  have plain: "\<not> isIPv4 ''www.example.com''"
    by (simp add: isIPv4_def isDigit_def)
  have groups: "\<forall>g \<in> set [''10'', ''0'', ''0'', ''1''].
        1 \<le> length g \<and> length g \<le> 3 \<and> set g \<subseteq> set ''0123456789''"
    by simp
  have "shouldRedirectToHttps parseURL (doParsePrefs []) ''http://site.invalid/'' = Inr False"
    using shouldRedirectToHttps_filter
      [where URL = parseURL and requestedUrl = "''http://site.invalid/''"
         and domains = "doParsePrefs []"] invalid
    by (simp add: suffix_to_prefix)
  moreover have "shouldRedirectToHttps parseURL (doParsePrefs ''example.com'')
      ''http://www.example.com/'' = Inr False"
    using shouldRedirectToHttps_filter
      [where URL = parseURL and requestedUrl = "''http://www.example.com/''"
         and domains = "doParsePrefs ''example.com''"] www excluded
    by simp
  moreover have "isIPv4 ''10.0.0.1''"
    using shouldRedirectToHttps_filter
      [where a = "''10''" and b = "''0''" and c = "''0''" and d = "''1''"] groups
    by simp
  moreover have "shouldRedirectToHttps parseURL (doParsePrefs [])
      ''http://www.example.com/'' = Inr True"
    using shouldRedirectToHttps_filter
      [where URL = parseURL and requestedUrl = "''http://www.example.com/''"
         and domains = "doParsePrefs []" and h = "''www.example.com''"] www plain
    by (simp add: suffix_to_prefix)
  ultimately show ?thesis by blast
qed

section \<open>The derived-URL heuristic\<close>

text \<open>
  Against claim C5 as stated: for the current URL \<^verbatim>\<open>https://a.com/\<close> and the request
  \<^verbatim>\<open>http://a.com/\<close> the function returns true. The comparison of the host names
  comes before the test of the scheme.
\<close>

theorem isDerivedURL_https_same_host:
  "isDerivedURL parseURL ''https://a.com/'' ''http://a.com/'' = Inr True"
  by (simp add: isDerivedURL_def parse_simps)

text \<open>
  Claim C5, amended. When the tab's current URL is a web URL with the scheme
  \<^verbatim>\<open>https:\<close>, the requested URL is judged derived exactly when both have the same
  host name: true for \<^verbatim>\<open>https://a.com/\<close> and \<^verbatim>\<open>http://a.com/\<close>, false as soon as the
  host names differ.
\<close>

theorem isDerivedURL_https_current:
  assumes "URL currentUrl = Some cur" and "URL requestedUrl = Some req"
    and "protocol cur = ''https:''" and "prefix ''http'' currentUrl"
  shows "isDerivedURL URL currentUrl requestedUrl = Inr (hostname req = hostname cur)"
  using assms by (auto simp: isDerivedURL_def)

theorem isDerivedURL_https_current_witness:
  "isDerivedURL parseURL ''https://a.com/'' ''http://a.com/'' = Inr True \<and>
   isDerivedURL parseURL ''https://a.com/x?y=1'' ''http://b.com/x?y=1'' = Inr False"
proof -
  have "parseURL ''https://a.com/'' = Some \<lparr>protocol = ''https:'', hostname = ''a.com'',
      pathname = ''/'', search = [], hash = []\<rparr>"
    and "parseURL ''http://a.com/'' = Some \<lparr>protocol = ''http:'', hostname = ''a.com'',
      pathname = ''/'', search = [], hash = []\<rparr>"
    and "parseURL ''https://a.com/x?y=1'' = Some \<lparr>protocol = ''https:'', hostname = ''a.com'',
      pathname = ''/x'', search = ''?y=1'', hash = []\<rparr>"
    and "parseURL ''http://b.com/x?y=1'' = Some \<lparr>protocol = ''http:'', hostname = ''b.com'',
      pathname = ''/x'', search = ''?y=1'', hash = []\<rparr>"
    by (simp_all add: parse_simps)
  from isDerivedURL_https_current [where URL = parseURL, OF this(1,2)]
    isDerivedURL_https_current [where URL = parseURL, OF this(3,4)]
  show ?thesis by simp
qed

text \<open>
  Against claim C7 as stated: \<^verbatim>\<open>http://a.com/x\<close> and \<^verbatim>\<open>http://b.com/x\<close> reach the
  last test with equal paths, queries and fragments. Only the path is longer than one
  character, the query and the fragment are empty, and the result is still true.
\<close>

theorem isDerivedURL_path_alone_suffices:
  "parseURL ''http://a.com/x'' = Some \<lparr>protocol = ''http:'', hostname = ''a.com'',
      pathname = ''/x'', search = [], hash = []\<rparr> \<and>
   parseURL ''http://b.com/x'' = Some \<lparr>protocol = ''http:'', hostname = ''b.com'',
      pathname = ''/x'', search = [], hash = []\<rparr> \<and>
   isDerivedURL parseURL ''http://a.com/x'' ''http://b.com/x'' = Inr True"
  by (simp add: isDerivedURL_def parse_simps)

text \<open>
  Claim C7, amended. For a current and a requested URL that reach the last test (not
  the same string, the current one a web URL that parses and is not \<^verbatim>\<open>https:\<close>,
  different host names) the result is true exactly when at least one of path, query and
  fragment is non-trivial (path longer than 1, query longer than 2 or fragment longer
  than 2) and all three are equal in both URLs.
\<close>

theorem isDerivedURL_last_test:
  assumes "currentUrl \<noteq> requestedUrl" and "prefix ''http'' currentUrl"
    and "URL currentUrl = Some cur" and "URL requestedUrl = Some req"
    and "hostname req \<noteq> hostname cur" and "protocol cur \<noteq> ''https:''"
  shows "isDerivedURL URL currentUrl requestedUrl =
           Inr ((1 < length (pathname req) \<or> 2 < length (search req) \<or>
                 2 < length (hash req)) \<and>
                pathname req = pathname cur \<and> search req = search cur \<and>
                hash req = hash cur)"
  using assms by (auto simp: isDerivedURL_def)

theorem isDerivedURL_last_test_witness:
  "isDerivedURL parseURL ''http://a.com/x'' ''http://b.com/x'' = Inr True \<and>
   isDerivedURL parseURL ''http://a.com/'' ''http://b.com/'' = Inr False"
proof -
  have "parseURL ''http://a.com/x'' = Some \<lparr>protocol = ''http:'', hostname = ''a.com'',
      pathname = ''/x'', search = [], hash = []\<rparr>"
    and "parseURL ''http://b.com/x'' = Some \<lparr>protocol = ''http:'', hostname = ''b.com'',
      pathname = ''/x'', search = [], hash = []\<rparr>"
    and "parseURL ''http://a.com/'' = Some \<lparr>protocol = ''http:'', hostname = ''a.com'',
      pathname = ''/'', search = [], hash = []\<rparr>"
    and "parseURL ''http://b.com/'' = Some \<lparr>protocol = ''http:'', hostname = ''b.com'',
      pathname = ''/'', search = [], hash = []\<rparr>"
    by (simp_all add: parse_simps)
  from isDerivedURL_last_test [where URL = parseURL, OF _ _ this(1,2)]
    isDerivedURL_last_test [where URL = parseURL, OF _ _ this(3,4)]
  show ?thesis by simp
qed

section \<open>What the handlers leave alone\<close>

lemma unregister_ledger [simp]:
  "tabCreationTimes (unregister r s) = tabCreationTimes s"
  "tabActivatedTimes (unregister r s) = tabActivatedTimes s"
  "objects (unregister r s) = objects s"
  "nextObject (unregister r s) = nextObject s"
  by (simp_all add: unregister_def split: option.splits)

lemma unregister_pending:
  "tabPendingRedirectInfos (unregister r s) x = Some y \<Longrightarrow>
   tabPendingRedirectInfos s x = Some y"
  by (simp add: unregister_def split: option.splits if_splits)

lemma unregister_others:
  "r' \<noteq> r \<Longrightarrow>
   (r' \<in> headersReceivedListeners (unregister r s) \<longleftrightarrow> r' \<in> headersReceivedListeners s) \<and>
   (r' \<in> responseStartedListeners (unregister r s) \<longleftrightarrow> r' \<in> responseStartedListeners s) \<and>
   (r' \<in> errorOccurredListeners (unregister r s) \<longleftrightarrow> r' \<in> errorOccurredListeners s)"
  by (simp add: unregister_def split: option.splits)

lemma unregisterRedirectInfo_ledger [simp]:
  "tabCreationTimes (unregisterRedirectInfo i s) = tabCreationTimes s"
  "tabActivatedTimes (unregisterRedirectInfo i s) = tabActivatedTimes s"
  "objects (unregisterRedirectInfo i s) = objects s"
  "nextObject (unregisterRedirectInfo i s) = nextObject s"
  by (simp_all add: unregisterRedirectInfo_def Let_def split: option.splits)

lemma unregisterRedirectInfo_pending:
  "tabPendingRedirectInfos (unregisterRedirectInfo i s) x = Some y \<Longrightarrow>
   x \<noteq> i \<and> tabPendingRedirectInfos s x = Some y"
  by (cases "tabPendingRedirectInfos s i")
     (auto simp: unregisterRedirectInfo_def Let_def split: if_splits
           dest: unregister_pending)

lemma unregisterRedirectInfo_others:
  "r' \<notin> headersReceivedListeners s \<Longrightarrow>
   r' \<notin> headersReceivedListeners (unregisterRedirectInfo i s)"
  "r' \<notin> responseStartedListeners s \<Longrightarrow>
   r' \<notin> responseStartedListeners (unregisterRedirectInfo i s)"
  "r' \<notin> errorOccurredListeners s \<Longrightarrow>
   r' \<notin> errorOccurredListeners (unregisterRedirectInfo i s)"
  by (simp_all add: unregisterRedirectInfo_def unregister_def Let_def split: option.splits)

lemma registerRedirectInfo_ledger [simp]:
  "tabCreationTimes (registerRedirectInfo i u s) = tabCreationTimes s"
  "tabActivatedTimes (registerRedirectInfo i u s) = tabActivatedTimes s"
  by (simp_all add: registerRedirectInfo_def Let_def)

lemma registerRedirectInfo_pending:
  "tabPendingRedirectInfos (registerRedirectInfo i u s) x = Some y \<Longrightarrow>
   x = i \<or> tabPendingRedirectInfos s x = Some y"
  by (auto simp: registerRedirectInfo_def Let_def split: if_splits
           dest: unregisterRedirectInfo_pending)

lemma registerRedirectInfo_armed:
  "tabPendingRedirectInfos (registerRedirectInfo i u s) i = Some (nextObject s) \<and>
   objects (registerRedirectInfo i u s) (nextObject s) =
     Some \<lparr>captured_tabId = i, info_url = u, redirectedRequestId = Null\<rparr> \<and>
   nextObject (registerRedirectInfo i u s) = Suc (nextObject s) \<and>
   nextObject s \<in> headersReceivedListeners (registerRedirectInfo i u s) \<and>
   nextObject s \<in> errorOccurredListeners (registerRedirectInfo i u s)"
  by (simp add: registerRedirectInfo_def Let_def)

lemma registerRedirectInfo_others:
  assumes "r' \<noteq> nextObject s"
  shows "r' \<notin> headersReceivedListeners s \<Longrightarrow>
         r' \<notin> headersReceivedListeners (registerRedirectInfo i u s)"
    and "r' \<notin> responseStartedListeners s \<Longrightarrow>
         r' \<notin> responseStartedListeners (registerRedirectInfo i u s)"
    and "r' \<notin> errorOccurredListeners s \<Longrightarrow>
         r' \<notin> errorOccurredListeners (registerRedirectInfo i u s)"
  using assms by (simp_all add: registerRedirectInfo_def Let_def unregisterRedirectInfo_others)

lemma onHeadersReceived_ledger [simp]:
  "tabCreationTimes (onHeadersReceived r ev s) = tabCreationTimes s"
  by (simp add: onHeadersReceived_def split: option.splits)

lemma onHeadersReceived_pending:
  "tabPendingRedirectInfos (onHeadersReceived r ev s) x = Some y \<Longrightarrow>
   tabPendingRedirectInfos s x = Some y"
  by (auto simp: onHeadersReceived_def split: option.splits if_splits
           dest: unregister_pending)

lemma onQueried_pending [simp]:
  "tabPendingRedirectInfos (onQueried ts s) = tabPendingRedirectInfos s"
  by (induction ts s rule: onQueried.induct) auto

lemma onQueried_creation:
  "tabCreationTimes s x \<noteq> None \<Longrightarrow> tabCreationTimes (onQueried ts s) x \<noteq> None"
  by (induction ts s rule: onQueried.induct) auto

section \<open>The request listener arms only tabs of the ledger\<close>

lemma decide_cases:
  "snd (decide URL currentTab d s) = s \<or>
   (tabCreationTimes s (tabId d) \<noteq> None \<and>
    snd (decide URL currentTab d s) = registerRedirectInfo (tabId d) (url d) s)"
  by (auto simp: decide_def split: option.splits sum.splits)

lemma onBeforeRequest_cases:
  "snd (onBeforeRequest URL domains rounds d s) = s \<or>
   (tabCreationTimes s (tabId d) \<noteq> None \<and>
    snd (onBeforeRequest URL domains rounds d s) = registerRedirectInfo (tabId d) (url d) s)"
  using decide_cases [of URL "pollTab None rounds (tabId d)" d s]
  by (auto simp: onBeforeRequest_def split: sum.splits)

lemma decide_approved:
  assumes "decide URL currentTab d s = (Inr (RedirectTo v), s1)"
    and "tabCreationTimes s (tabId d) \<noteq> None"
  shows "s1 = registerRedirectInfo (tabId d) (url d) s \<and> v = replaceColon (url d)"
  using assms by (auto simp: decide_def split: option.splits sum.splits if_splits)

lemma onBeforeRequest_approved:
  assumes "onBeforeRequest URL domains rounds d s = (Inr (RedirectTo v), s1)"
    and "tabCreationTimes s (tabId d) \<noteq> None"
  shows "s1 = registerRedirectInfo (tabId d) (url d) s \<and> v = replaceColon (url d)"
  using assms
  by (auto simp: onBeforeRequest_def split: sum.splits if_splits dest: decide_approved)

lemma decide_without_creation:
  assumes "tabCreationTimes s (tabId d) = None"
  shows "snd (decide URL currentTab d s) = s"
    and "fst (decide URL currentTab d (s\<lparr>tabPendingRedirectInfos := p, objects := ob\<rparr>)) =
         fst (decide URL currentTab d s)"
  using assms
  by (auto simp: decide_def aboutBlankReturns_def split: option.splits sum.splits)

lemma decide_redirect_url:
  "fst (decide URL currentTab d s) = Inr (RedirectTo v) \<Longrightarrow> v = replaceColon (url d)"
  by (auto simp: decide_def split: option.splits sum.splits if_splits)

lemma onBeforeRequest_redirect_url:
  "fst (onBeforeRequest URL domains rounds d s) = Inr (RedirectTo v) \<Longrightarrow>
   v = replaceColon (url d)"
  by (auto simp: onBeforeRequest_def split: sum.splits if_splits dest: decide_redirect_url)

text \<open>One event keeps every tab of the registry inside the creation-time ledger.\<close>

lemma covered_step:
  assumes cov: "\<And>x y. tabPendingRedirectInfos s x = Some y \<Longrightarrow> tabCreationTimes s x \<noteq> None"
    and new: "tabPendingRedirectInfos (step URL e s) x = Some y"
  shows "tabCreationTimes (step URL e s) x \<noteq> None"
proof (cases e)
  case (TabCreated t now now')
  with new show ?thesis
    by (auto simp: onCreated_def Let_def split: if_splits dest: cov)
next
  case (TabActivated i now)
  with new show ?thesis
    by (auto simp: onActivated_def dest: cov)
next
  case (TabRemoved i)
  with new show ?thesis
    by (auto simp: onRemoved_def dest!: unregisterRedirectInfo_pending dest: cov)
next
  case (TabsQueried ts)
  with new have "tabPendingRedirectInfos s x = Some y" by simp
  then have "tabCreationTimes s x \<noteq> None" by (rule cov)
  then show ?thesis
    unfolding TabsQueried step.simps by (rule onQueried_creation)
next
  case (BeforeRequest domains rounds d)
  with new show ?thesis
    using onBeforeRequest_cases [of URL domains rounds d s]
    by (auto dest!: registerRedirectInfo_pending dest: cov)
next
  case (HeadersReceived r ev)
  with new show ?thesis
    by (auto dest!: onHeadersReceived_pending dest: cov)
next
  case (ResponseStarted r)
  with new show ?thesis
    by (auto dest!: unregister_pending dest: cov)
next
  case (ErrorOccurred r)
  with new show ?thesis
    by (auto dest!: unregister_pending dest: cov)
qed

lemma covered_run:
  assumes "\<And>x y. tabPendingRedirectInfos s x = Some y \<Longrightarrow> tabCreationTimes s x \<noteq> None"
    and "tabPendingRedirectInfos (run URL es s) x = Some y"
  shows "tabCreationTimes (run URL es s) x \<noteq> None"
  using assms
proof (induction es arbitrary: s)
  case Nil
  then show ?case by simp
next
  case (Cons e es)
  have "tabPendingRedirectInfos (run URL es (step URL e s)) x = Some y"
    using Cons.prems(2) by simp
  moreover have "tabCreationTimes (step URL e s) x' \<noteq> None"
    if "tabPendingRedirectInfos (step URL e s) x' = Some y'" for x' y'
    using Cons.prems(1) that by (rule covered_step)
  ultimately have "tabCreationTimes (run URL es (step URL e s)) x \<noteq> None"
    using Cons.IH [of "step URL e s"] by blast
  then show ?case by simp
qed

lemma covered_reachable:
  "dom (tabPendingRedirectInfos (run URL es init)) \<subseteq> dom (tabCreationTimes (run URL es init))"
proof
  fix x
  assume "x \<in> dom (tabPendingRedirectInfos (run URL es init))"
  then obtain y where y: "tabPendingRedirectInfos (run URL es init) x = Some y"
    by auto
  have "tabCreationTimes init x' \<noteq> None" if "tabPendingRedirectInfos init x' = Some y'"
    for x' y'
    using that by (simp add: init_def)
  then have "tabCreationTimes (run URL es init) x \<noteq> None"
    using y by (rule covered_run)
  then show "x \<in> dom (tabCreationTimes (run URL es init))"
    by (simp add: domIff)
qed

lemma untracked_eval:
  "onBeforeRequest parseURL (doParsePrefs []) [Map.empty] untrackedRequest init =
     (Inr (RedirectTo ''https://example.com/''), init)"
  by (simp add: untrackedRequest_def init_def listener_simps parse_simps filter_simps)

section \<open>The states of the scenarios\<close>

lemma createdState_eq:
  "createdState = \<lparr>tabCreationTimes = [Some 1 \<mapsto> T0], tabActivatedTimes = [Some 1 \<mapsto> T0],
           tabPendingRedirectInfos = Map.empty, objects = Map.empty, nextObject = 0,
           headersReceivedListeners = {}, responseStartedListeners = {},
           errorOccurredListeners = {}\<rparr>"
  by (simp add: createdState_def blankTab_def ledger_simps)

lemma armedState_eq:
  "armedState = \<lparr>tabCreationTimes = [Some 1 \<mapsto> T0], tabActivatedTimes = [Some 1 \<mapsto> T0],
           tabPendingRedirectInfos = [Some 1 \<mapsto> 0],
           objects = [0 \<mapsto> \<lparr>captured_tabId = Some 1, info_url = ''http://example.com/'',
                    redirectedRequestId = Null\<rparr>], nextObject = Suc 0,
           headersReceivedListeners = {0}, responseStartedListeners = {},
           errorOccurredListeners = {0}\<rparr>"
  by (simp add: armedState_def createdState_eq exampleRequest_def blankTab_def
      listener_simps parse_simps filter_simps tracking_simps)

lemma armedState_approved:
  "onBeforeRequest parseURL (doParsePrefs []) [[1 \<mapsto> blankTab]]
     (exampleRequest (T0 + 2000)) createdState =
     (Inr (RedirectTo ''https://example.com/''), armedState)"
  by (simp add: armedState_eq createdState_eq exampleRequest_def blankTab_def
      listener_simps parse_simps filter_simps tracking_simps)

lemma redirectObservedState_eq:
  "redirectObservedState = armedState
     \<lparr>objects := [0 \<mapsto> \<lparr>captured_tabId = Some 1, info_url = ''http://example.com/'',
                    redirectedRequestId = Undefined\<rparr>],
      responseStartedListeners := {0}\<rparr>"
  by (simp add: redirectObservedState_def armedState_eq redirectResponse_def tracking_simps)

lemma supersededRun_eq:
  "run parseURL supersededRun init =
     \<lparr>tabCreationTimes = [Some 1 \<mapsto> T0], tabActivatedTimes = [Some 1 \<mapsto> T0],
           tabPendingRedirectInfos = [Some 1 \<mapsto> Suc 0],
           objects = [0 \<mapsto> \<lparr>captured_tabId = Some 1, info_url = ''http://example.com/'',
                    redirectedRequestId = Null\<rparr>,
                 Suc 0 \<mapsto> \<lparr>captured_tabId = Some 1, info_url = ''http://second.org/'',
                    redirectedRequestId = Null\<rparr>], nextObject = Suc (Suc 0),
           headersReceivedListeners = {Suc 0}, responseStartedListeners = {},
           errorOccurredListeners = {Suc 0}\<rparr>"
proof -
  have "run parseURL supersededRun init =
      snd (onBeforeRequest parseURL (doParsePrefs []) [[1 \<mapsto> blankTab]] secondRequest
             armedState)"
    by (simp add: supersededRun_def armedState_def createdState_def)
  also have "\<dots> = \<lparr>tabCreationTimes = [Some 1 \<mapsto> T0], tabActivatedTimes = [Some 1 \<mapsto> T0],
           tabPendingRedirectInfos = [Some 1 \<mapsto> Suc 0],
           objects = [0 \<mapsto> \<lparr>captured_tabId = Some 1, info_url = ''http://example.com/'',
                    redirectedRequestId = Null\<rparr>,
                 Suc 0 \<mapsto> \<lparr>captured_tabId = Some 1, info_url = ''http://second.org/'',
                    redirectedRequestId = Null\<rparr>], nextObject = Suc (Suc 0),
           headersReceivedListeners = {Suc 0}, responseStartedListeners = {},
           errorOccurredListeners = {Suc 0}\<rparr>"
    by (simp add: armedState_eq secondRequest_def blankTab_def
        listener_simps parse_simps filter_simps tracking_simps)
  finally show ?thesis .
qed

section \<open>Upgrades for tabs outside the ledger\<close>

text \<open>
  Claim C10. When the tab of a request has no entry in \<open>tabCreationTimes\<close>, the
  listener changes nothing in the state, so it arms no tracking instance; its answer
  is the same whatever the registry and the instances hold, so neither of the two
  pending-redirect checks is consulted; and an approval carries the requested URL with
  \<^verbatim>\<open>http:\<close> replaced by \<^verbatim>\<open>https:\<close>. In every state that the extension reaches from
  its start, each tab id of the registry has a recorded creation time.
\<close>

theorem untracked_tab_upgrade:
  "(tabCreationTimes s (tabId d) = None \<longrightarrow>
      snd (onBeforeRequest URL domains rounds d s) = s \<and>
      fst (onBeforeRequest URL domains rounds d
             (s\<lparr>tabPendingRedirectInfos := p, objects := ob\<rparr>)) =
        fst (onBeforeRequest URL domains rounds d s) \<and>
      (\<forall>v. fst (onBeforeRequest URL domains rounds d s) = Inr (RedirectTo v) \<longrightarrow>
           v = replaceColon (url d))) \<and>
   dom (tabPendingRedirectInfos (run URL es init)) \<subseteq> dom (tabCreationTimes (run URL es init))"
proof -
  have "snd (onBeforeRequest URL domains rounds d s) = s"
    if "tabCreationTimes s (tabId d) = None"
    using decide_without_creation(1) [OF that, of URL]
    by (simp add: onBeforeRequest_def split: sum.splits)
  moreover have "fst (onBeforeRequest URL domains rounds d
             (s\<lparr>tabPendingRedirectInfos := p, objects := ob\<rparr>)) =
        fst (onBeforeRequest URL domains rounds d s)"
    if "tabCreationTimes s (tabId d) = None"
    using decide_without_creation(2) [OF that, of URL]
    by (simp add: onBeforeRequest_def split: sum.splits)
  ultimately show ?thesis
    using covered_reachable [of URL es] onBeforeRequest_redirect_url [of URL domains rounds d s]
    by blast
qed

text \<open>Tab 5 was never seen: the request is upgraded and the state stays as it is, also
  when the registry holds an instance whose recorded request id would match.\<close>

theorem untracked_tab_upgrade_witness:
  "onBeforeRequest parseURL (doParsePrefs []) [Map.empty] untrackedRequest init =
     (Inr (RedirectTo ''https://example.com/''), init) \<and>
   fst (onBeforeRequest parseURL (doParsePrefs []) [Map.empty] untrackedRequest
     (init\<lparr>tabPendingRedirectInfos := [Some 5 \<mapsto> 0],
           objects := [0 \<mapsto> \<lparr>captured_tabId = Some 5, info_url = ''http://example.com/'',
                                redirectedRequestId = Undefined\<rparr>]\<rparr>)) =
     Inr (RedirectTo ''https://example.com/'') \<and>
   dom (tabPendingRedirectInfos (run parseURL supersededRun init)) \<subseteq>
     dom (tabCreationTimes (run parseURL supersededRun init))"
proof -
  have a: "tabCreationTimes init (tabId untrackedRequest) = None"
    by (simp add: init_def)
  have b: "onBeforeRequest parseURL (doParsePrefs []) [Map.empty] untrackedRequest init =
     (Inr (RedirectTo ''https://example.com/''), init)"
    by (rule untracked_eval)
  show ?thesis
    using untracked_tab_upgrade [where s = init and d = untrackedRequest and URL = parseURL
        and domains = "doParsePrefs []" and rounds = "[Map.empty]" and p = "[Some 5 \<mapsto> 0]"
        and ob = "[0 \<mapsto> \<lparr>captured_tabId = Some 5, info_url = ''http://example.com/'',
                                redirectedRequestId = Undefined\<rparr>]"
        and es = supersededRun] a b
    by simp
qed

section \<open>Stale response events\<close>

text \<open>
  Claim C2, evaluated on the code. The upgrade of \<^verbatim>\<open>http://example.com/\<close> on tab 1
  (instance 0) is superseded by the upgrade of \<^verbatim>\<open>http://second.org/\<close> (instance 1),
  which removes the listeners of instance 0. A header-received event that was queued
  for instance 0 is dispatched afterwards. With status 302 the identity test of the
  handler returns and the state stays as it is. With status 200 the handler calls
  \<^verbatim>\<open>unregister\<close> before that test: the entry of tab 1, which belongs to instance 1,
  is deleted, while the listeners of instance 1 stay registered. When tab 1 is then
  removed, no entry leads to instance 1 and its listeners stay registered for good.
\<close>

theorem stale_ok_response_clears_entry:
  "tabPendingRedirectInfos (run parseURL supersededRun init) (Some 1) = Some 1 \<and>
   pendingRedirectInfo (run parseURL supersededRun init) (Some 1) =
     Some \<lparr>captured_tabId = Some 1, info_url = ''http://second.org/'',
            redirectedRequestId = Null\<rparr> \<and>
   objects (run parseURL supersededRun init) 0 =
     Some \<lparr>captured_tabId = Some 1, info_url = ''http://example.com/'',
            redirectedRequestId = Null\<rparr> \<and>
   headersReceivedListeners (run parseURL supersededRun init) = {1} \<and>
   errorOccurredListeners (run parseURL supersededRun init) = {1} \<and>
   onHeadersReceived 0 redirectResponse (run parseURL supersededRun init) =
     run parseURL supersededRun init \<and>
   tabPendingRedirectInfos (onHeadersReceived 0 okResponse (run parseURL supersededRun init))
     (Some 1) = None \<and>
   headersReceivedListeners (onHeadersReceived 0 okResponse (run parseURL supersededRun init))
     = {1} \<and>
   errorOccurredListeners (onHeadersReceived 0 okResponse (run parseURL supersededRun init))
     = {1} \<and>
   headersReceivedListeners
     (onRemoved (Some 1) (onHeadersReceived 0 okResponse (run parseURL supersededRun init)))
     = {1} \<and>
   errorOccurredListeners
     (onRemoved (Some 1) (onHeadersReceived 0 okResponse (run parseURL supersededRun init)))
     = {1}"
proof -
  have after: "onHeadersReceived 0 okResponse (run parseURL supersededRun init) =
      (run parseURL supersededRun init)\<lparr>tabPendingRedirectInfos := Map.empty\<rparr>"
    by (simp add: supersededRun_eq okResponse_def tracking_simps)
  have stale302: "onHeadersReceived 0 redirectResponse (run parseURL supersededRun init) =
      run parseURL supersededRun init"
    by (simp add: supersededRun_eq redirectResponse_def tracking_simps)
  have removed: "headersReceivedListeners
      (onRemoved (Some 1) ((run parseURL supersededRun init)
         \<lparr>tabPendingRedirectInfos := Map.empty\<rparr>)) = {1} \<and>
     errorOccurredListeners
      (onRemoved (Some 1) ((run parseURL supersededRun init)
         \<lparr>tabPendingRedirectInfos := Map.empty\<rparr>)) = {1}"
    by (simp add: supersededRun_eq onRemoved_def tracking_simps)
  show ?thesis
    unfolding after stale302 using removed
    by (simp add: supersededRun_eq pendingRedirectInfo_def)
qed

section \<open>Arming and settling\<close>

lemma unregister_settles:
  assumes "objects s r = Some inst" and "captured_tabId inst = i"
  shows "r \<notin> headersReceivedListeners (unregister r s) \<and>
         r \<notin> responseStartedListeners (unregister r s) \<and>
         r \<notin> errorOccurredListeners (unregister r s) \<and>
         tabPendingRedirectInfos (unregister r s) i = None \<and>
         nextObject (unregister r s) = nextObject s"
  using assms by (simp add: unregister_def)

text \<open>
  Against claim C3 as stated: when the upgrade of \<^verbatim>\<open>http://example.com/\<close> is approved
  and answered with \<^verbatim>\<open>https://example.com/\<close>, the armed instance records
  \<^verbatim>\<open>http://example.com/\<close>, the URL as it was requested, and not the upgraded one.
\<close>

theorem armed_instance_records_requested_url:
  "onBeforeRequest parseURL (doParsePrefs []) [[1 \<mapsto> blankTab]]
     (exampleRequest (T0 + 2000)) createdState =
     (Inr (RedirectTo ''https://example.com/''), armedState) \<and>
   tabPendingRedirectInfos armedState (Some 1) = Some 0 \<and>
   pendingRedirectInfo armedState (Some 1) =
     Some \<lparr>captured_tabId = Some 1, info_url = ''http://example.com/'',
            redirectedRequestId = Null\<rparr> \<and>
   ''http://example.com/'' \<noteq> ''https://example.com/''"
proof (intro conjI)
  show "onBeforeRequest parseURL (doParsePrefs []) [[1 \<mapsto> blankTab]]
     (exampleRequest (T0 + 2000)) createdState =
     (Inr (RedirectTo ''https://example.com/''), armedState)"
    by (rule armedState_approved)
qed (simp_all add: armedState_eq pendingRedirectInfo_def)

text \<open>
  Claim C3, amended. When an upgrade is approved for a tab of the ledger, the answer
  is the requested URL with \<^verbatim>\<open>https:\<close>, and the armed instance records the requested
  URL itself, the plaintext form. When the request-error listener of the instance is
  called, the instance settles: its three listeners are removed and the entry of the
  tab is deleted. A later upgrade for the same tab is then armed as a new instance with
  its own listeners, and the listeners of the settled instance stay removed. For which
  failed requests the browser calls that listener is not part of the statement.
\<close>

theorem armed_instance_settles_on_error:
  assumes "onBeforeRequest URL domains rounds d s = (Inr (RedirectTo v), s1)"
    and "tabCreationTimes s (tabId d) \<noteq> None"
    and "s2 = step URL (ErrorOccurred (nextObject s)) s1"
    and "s3 = registerRedirectInfo (tabId d) u' s2"
  shows "v = replaceColon (url d) \<and>
         tabPendingRedirectInfos s1 (tabId d) = Some (nextObject s) \<and>
         objects s1 (nextObject s) =
           Some \<lparr>captured_tabId = tabId d, info_url = url d, redirectedRequestId = Null\<rparr> \<and>
         nextObject s \<in> errorOccurredListeners s1 \<and>
         nextObject s \<notin> headersReceivedListeners s2 \<and>
         nextObject s \<notin> responseStartedListeners s2 \<and>
         nextObject s \<notin> errorOccurredListeners s2 \<and>
         tabPendingRedirectInfos s2 (tabId d) = None \<and>
         tabPendingRedirectInfos s3 (tabId d) = Some (Suc (nextObject s)) \<and>
         objects s3 (Suc (nextObject s)) =
           Some \<lparr>captured_tabId = tabId d, info_url = u', redirectedRequestId = Null\<rparr> \<and>
         Suc (nextObject s) \<in> headersReceivedListeners s3 \<and>
         Suc (nextObject s) \<in> errorOccurredListeners s3 \<and>
         nextObject s \<notin> headersReceivedListeners s3 \<and>
         nextObject s \<notin> responseStartedListeners s3 \<and>
         nextObject s \<notin> errorOccurredListeners s3"
proof -
  let ?r = "nextObject s"
  have s1: "s1 = registerRedirectInfo (tabId d) (url d) s" and v: "v = replaceColon (url d)"
    using onBeforeRequest_approved [OF assms(1,2)] by simp_all
  note armed = registerRedirectInfo_armed [of "tabId d" "url d" s, folded s1]
  have s2: "s2 = unregister ?r s1"
    using assms(3) by simp
  have settled: "?r \<notin> headersReceivedListeners s2 \<and> ?r \<notin> responseStartedListeners s2 \<and>
      ?r \<notin> errorOccurredListeners s2 \<and> tabPendingRedirectInfos s2 (tabId d) = None \<and>
      nextObject s2 = nextObject s1"
  proof -
    have "objects s1 ?r =
        Some \<lparr>captured_tabId = tabId d, info_url = url d, redirectedRequestId = Null\<rparr>"
      using armed by simp
    from unregister_settles [OF this, of "tabId d"]
    show ?thesis unfolding s2 by simp
  qed
  have next2: "nextObject s2 = Suc ?r"
    using settled armed by simp
  note rearmed = registerRedirectInfo_armed [of "tabId d" u' s2, folded assms(4)]
  have "?r \<noteq> nextObject s2" using next2 by simp
  note old = registerRedirectInfo_others
    [OF this, where i = "tabId d" and u = u', folded assms(4)]
  show ?thesis
    using v armed settled rearmed old by (simp add: next2)
qed

text \<open>The scenario: after the error listener of instance 0 has run, the entry of tab 1
  is gone, and the upgrade of \<^verbatim>\<open>http://second.org/\<close> is armed afresh.\<close>

theorem armed_instance_settles_on_error_witness:
  "tabPendingRedirectInfos (step parseURL (ErrorOccurred 0) armedState) (Some 1) = None \<and>
   pendingRedirectInfo
     (registerRedirectInfo (Some 1) ''http://second.org/''
        (step parseURL (ErrorOccurred 0) armedState)) (Some 1) =
     Some \<lparr>captured_tabId = Some 1, info_url = ''http://second.org/'',
            redirectedRequestId = Null\<rparr>"
proof -
  have b: "tabCreationTimes createdState (tabId (exampleRequest (T0 + 2000))) \<noteq> None"
    by (simp add: createdState_eq exampleRequest_def)
  show ?thesis
    using armed_instance_settles_on_error
      [OF armedState_approved b refl refl, of "''http://second.org/''"]
    by (simp add: exampleRequest_def createdState_eq pendingRedirectInfo_def)
qed

section \<open>Requests on a fresh blank tab\<close>

text \<open>
  Against claim C4 as stated: tab 1 is created active on \<^verbatim>\<open>about:blank\<close> at \<open>T0\<close>,
  and the request for \<^verbatim>\<open>http://example.com/\<close> without origin URL arrives 500 ms
  later. The tab was activated less than one second before, so the listener returns
  without a redirect and arms nothing.
\<close>

theorem blank_tab_request_after_500ms:
  "onBeforeRequest parseURL (doParsePrefs []) [[1 \<mapsto> blankTab]]
     (exampleRequest (T0 + 500)) createdState = (Inr NoChange, createdState)"
  by (simp add: createdState_eq exampleRequest_def blankTab_def
      listener_simps parse_simps filter_simps)

text \<open>
  Claim C4, amended. For a tab created active at time \<open>t0\<close> whose page is
  \<^verbatim>\<open>about:blank\<close>, a request for \<^verbatim>\<open>http://example.com/\<close> without origin URL that
  arrives \<open>dt\<close> ms later is left alone when \<open>dt\<close> is below 1000, and changes nothing;
  from 1000 ms on the answer is the redirect to \<^verbatim>\<open>https://example.com/\<close>, and an
  instance is armed for the tab that records the requested URL
  \<^verbatim>\<open>http://example.com/\<close> and no request id yet.
\<close>

theorem blank_tab_upgrade_after_one_second:
  assumes "tab_id t = Some k" and "k \<noteq> 0" and "k \<noteq> - 1" and "active t"
    and "pollTab None rounds (Some k) = Some c" and "tab_url c = ''about:blank''"
    and "d = \<lparr>tabId = Some k, url = ''http://example.com/'', requestId = rid,
               requestedId = q, originUrl = None, timeStamp = t0 + dt\<rparr>"
    and "s = onCreated t t0 t0 init"
  shows "(dt < 1000 \<longrightarrow>
            onBeforeRequest parseURL (doParsePrefs []) rounds d s = (Inr NoChange, s)) \<and>
         (1000 \<le> dt \<longrightarrow>
            fst (onBeforeRequest parseURL (doParsePrefs []) rounds d s) =
              Inr (RedirectTo ''https://example.com/'') \<and>
            pendingRedirectInfo (snd (onBeforeRequest parseURL (doParsePrefs []) rounds d s))
              (Some k) =
              Some \<lparr>captured_tabId = Some k, info_url = ''http://example.com/'',
                     redirectedRequestId = Null\<rparr>)"
proof -
  have s: "s = \<lparr>tabCreationTimes = [Some k \<mapsto> t0], tabActivatedTimes = [Some k \<mapsto> t0],
           tabPendingRedirectInfos = Map.empty, objects = Map.empty, nextObject = 0,
           headersReceivedListeners = {}, responseStartedListeners = {},
           errorOccurredListeners = {}\<rparr>"
    using assms(1-4,8) by (simp add: ledger_simps)
  have host: "shouldRedirectToHttps parseURL (doParsePrefs []) ''http://example.com/'' = Inr True"
    by (simp add: parse_simps filter_simps)
  have derived: "isDerivedURL parseURL ''about:blank'' ''http://example.com/'' = Inr False"
    by (simp add: isDerivedURL_def)
  show ?thesis
    using assms(2,3,5,6) host derived
    by (simp add: s assms(7) onBeforeRequest_def decide_def truthyString_def
        aboutBlankReturns_def elapsedLess_def retriedRequest_def sameUrlWhileLoading_def
        pendingRedirectInfo_def tracking_simps)
qed

theorem blank_tab_upgrade_after_one_second_witness:
  "onBeforeRequest parseURL (doParsePrefs []) [[1 \<mapsto> blankTab]]
     (exampleRequest (T0 + 999)) createdState = (Inr NoChange, createdState) \<and>
   fst (onBeforeRequest parseURL (doParsePrefs []) [[1 \<mapsto> blankTab]]
     (exampleRequest (T0 + 1000)) createdState) = Inr (RedirectTo ''https://example.com/'') \<and>
   pendingRedirectInfo (snd (onBeforeRequest parseURL (doParsePrefs []) [[1 \<mapsto> blankTab]]
     (exampleRequest (T0 + 1000)) createdState)) (Some 1) =
     Some \<lparr>captured_tabId = Some 1, info_url = ''http://example.com/'',
            redirectedRequestId = Null\<rparr>"
  using blank_tab_upgrade_after_one_second
      [of blankTab 1 "[[1 \<mapsto> blankTab]]" blankTab "exampleRequest (T0 + 999)"
          "''17''" Undefined T0 999 createdState]
    blank_tab_upgrade_after_one_second
      [of blankTab 1 "[[1 \<mapsto> blankTab]]" blankTab "exampleRequest (T0 + 1000)"
          "''17''" Undefined T0 1000 createdState]
  by (simp add: blankTab_def exampleRequest_def createdState_def tabsGet_def)

section \<open>The request id that the listeners read\<close>

text \<open>
  Claim C1, evaluated on the code. Tab 1 is armed for \<^verbatim>\<open>http://example.com/\<close>, and
  the browser reports status 302 for request 17. The handler stores the property
  \<^verbatim>\<open>requestedId\<close> of the event, which the browser does not set: the instance records
  \<^verbatim>\<open>undefined\<close>, not 17. The request 99 that follows on the tab has a different
  request id, and its \<^verbatim>\<open>requestedId\<close> is \<^verbatim>\<open>undefined\<close> as well, so the retried-request
  check holds for it and it is not upgraded. Without the 302 the same request is
  upgraded.
\<close>

theorem redirect_records_undefined_request_id:
  "fromBrowser redirectResponse \<and> fromBrowser otherRequest \<and>
   requestId otherRequest \<noteq> requestId redirectResponse \<and>
   pendingRedirectInfo redirectObservedState (Some 1) =
     Some \<lparr>captured_tabId = Some 1, info_url = ''http://example.com/'',
            redirectedRequestId = Undefined\<rparr> \<and>
   retriedRequest redirectObservedState otherRequest \<and>
   onBeforeRequest parseURL (doParsePrefs []) [[1 \<mapsto> loadingTab]] otherRequest
     redirectObservedState = (Inr NoChange, redirectObservedState) \<and>
   onBeforeRequest parseURL (doParsePrefs []) [[1 \<mapsto> loadingTab]] otherRequest
     armedState =
     (Inr (RedirectTo ''https://other.org/''),
      registerRedirectInfo (Some 1) ''http://other.org/'' armedState)"
  by (simp add: redirectObservedState_eq armedState_eq fromBrowser_def redirectResponse_def
      otherRequest_def loadingTab_def listener_simps parse_simps filter_simps)

section \<open>The activation time of a tab that was never activated\<close>

lemma pollTab_undefined: "pollTab None rounds None = None"
  by (induction rounds) (simp_all add: tabsGet_def)

text \<open>
  Claim C6, evaluated on the code. Tab 2 is created in the background at \<open>T0\<close>: its
  creation time is recorded, its activation time is not, and its last access is \<open>T0\<close>.
  The request arrives 500 ms later, less than one second after the last access. The
  test of line 117 looks at \<^verbatim>\<open>tabId\<close>, which is a number, so the last access is not
  used: the comparison with the missing activation time is false and the request is
  upgraded. No request with an undefined tab id gets a resolved tab, so the branch is
  never taken.
\<close>

theorem activation_fallback_not_taken:
  "tabCreationTimes (onCreated backgroundTab T0 T0 init) (Some 2) = Some T0 \<and>
   tabActivatedTimes (onCreated backgroundTab T0 T0 init) (Some 2) = None \<and>
   elapsedLess (timeStamp backgroundRequest) (lastAccessed backgroundTab) 1000 \<and>
   fst (onBeforeRequest parseURL (doParsePrefs []) [[2 \<mapsto> backgroundTab]] backgroundRequest
          (onCreated backgroundTab T0 T0 init)) = Inr (RedirectTo ''https://example.com/'') \<and>
   pollTab None rounds None = None"
  by (simp add: backgroundTab_def backgroundRequest_def ledger_simps listener_simps
      parse_simps filter_simps pollTab_undefined)

end
